theory Spec2Isabelle
  imports Main "HOL-Library.Sublist"
begin

section \<open>JavaScript values and the faults the helpers can raise\<close>

text \<open>
  The helpers of \<^verbatim>\<open>config/helpers.js\<close> work on decoded JSON payloads and on
  the objects they build themselves. A value is one of the JSON shapes, or
  \<^verbatim>\<open>undefined\<close> (what reading a missing property gives). An object is the list
  of its own properties in insertion order, with distinct keys. A \<open>char\<close> of a
  string stands for one UTF-16 code unit in the range 0..255. Numbers carry an
  integer: the helpers only ask for a number's type and compare status codes.
\<close>

datatype jsval =
    JUndefined
  | JNull
  | JBool bool
  | JNum int
  | JStr string
  | JArr "jsval list"
  | JObj "(string \<times> jsval) list"

datatype error = TypeError | IOError | OracleError | CloseError

text \<open>Sequencing of fallible steps: the first fault ends the evaluation.\<close>

definition bindE :: "error + 'a \<Rightarrow> ('a \<Rightarrow> error + 'b) \<Rightarrow> error + 'b" where
  "bindE m f = (case m of Inl e \<Rightarrow> Inl e | Inr x \<Rightarrow> f x)"

text \<open>\<^verbatim>\<open>a || b\<close> on booleans: \<open>b\<close> is evaluated only when \<open>a\<close> is false.\<close>

definition orE :: "error + bool \<Rightarrow> error + bool \<Rightarrow> error + bool" where
  "orE a b = bindE a (\<lambda>x. if x then Inr True else b)"

text \<open>\<^verbatim>\<open>typeof v\<close>.\<close>

fun typeof :: "jsval \<Rightarrow> string" where
  "typeof JUndefined = ''undefined''"
| "typeof JNull = ''object''"
| "typeof (JBool b) = ''boolean''"
| "typeof (JNum n) = ''number''"
| "typeof (JStr s) = ''string''"
| "typeof (JArr vs) = ''object''"
| "typeof (JObj kvs) = ''object''"

text \<open>\<^verbatim>\<open>Boolean(v)\<close>, the test behind \<^verbatim>\<open>!v\<close> and \<^verbatim>\<open>.filter(Boolean)\<close>.\<close>

fun truthy :: "jsval \<Rightarrow> bool" where
  "truthy JUndefined = False"
| "truthy JNull = False"
| "truthy (JBool b) = b"
| "truthy (JNum n) = (n \<noteq> 0)"
| "truthy (JStr s) = (s \<noteq> [])"
| "truthy (JArr vs) = True"
| "truthy (JObj kvs) = True"

text \<open>
  The white space and line terminators that \<^verbatim>\<open>String.prototype.trim\<close> strips,
  among the code units below 256: TAB, LF, VT, FF, CR, SPACE and NBSP.
\<close>

definition isWhiteSpace :: "char \<Rightarrow> bool" where
  "isWhiteSpace c =
     (c = CHR 0x09 \<or> c = CHR 0x0A \<or> c = CHR 0x0B \<or> c = CHR 0x0C \<or> c = CHR 0x0D \<or>
      c = CHR 0x20 \<or> c = CHR 0xA0)"

definition trim :: "string \<Rightarrow> string" where
  "trim s = rev (dropWhile isWhiteSpace (rev (dropWhile isWhiteSpace s)))"

text \<open>
  \<^verbatim>\<open>v?.trim()\<close>: \<^verbatim>\<open>undefined\<close> for a nullish \<open>v\<close>, the trimmed string for a
  string; every other decoded value has no \<^verbatim>\<open>trim\<close> method, and the call raises
  a TypeError.
\<close>

fun optTrim :: "jsval \<Rightarrow> error + jsval" where
  "optTrim JUndefined = Inr JUndefined"
| "optTrim JNull = Inr JUndefined"
| "optTrim (JStr s) = Inr (JStr (trim s))"
| "optTrim v = Inl TypeError"

text \<open>\<^verbatim>\<open>!v?.trim()\<close>, the blank test of the title, body and name checks.\<close>

definition notOptTrim :: "jsval \<Rightarrow> error + bool" where
  "notOptTrim v = bindE (optTrim v) (\<lambda>t. Inr (\<not> truthy t))"

text \<open>\<^verbatim>\<open>c && "text"\<close> for a boolean \<open>c\<close>.\<close>

definition andStr :: "bool \<Rightarrow> string \<Rightarrow> jsval" where
  "andStr c s = (if c then JStr s else JBool False)"

text \<open>
  Reading a property of a value that is not nullish: an object gives the value
  stored under the key, or \<^verbatim>\<open>undefined\<close>. The helpers read \<^verbatim>\<open>userId\<close>,
  \<^verbatim>\<open>title\<close>, \<^verbatim>\<open>body\<close> and \<^verbatim>\<open>name\<close>; numbers, booleans, strings and
  arrays have none of them.
\<close>

fun getProp :: "jsval \<Rightarrow> string \<Rightarrow> jsval" where
  "getProp (JObj kvs) k = (case map_of kvs k of Some v \<Rightarrow> v | None \<Rightarrow> JUndefined)"
| "getProp v k = JUndefined"

text \<open>
  \<^verbatim>\<open>const { userId, title, body, name: userName } = item;\<close>
  Destructuring \<^verbatim>\<open>null\<close> or \<^verbatim>\<open>undefined\<close> raises a TypeError.
\<close>

definition destructure :: "jsval \<Rightarrow> error + (jsval \<times> jsval \<times> jsval \<times> jsval)" where
  "destructure item =
     (if item = JUndefined \<or> item = JNull then Inl TypeError
      else Inr (getProp item ''userId'', getProp item ''title'', getProp item ''body'',
                getProp item ''name''))"

section \<open>validateApiData\<close>

text \<open>
  The \<^verbatim>\<open>"Posts"\<close> branch of the callback. The condition short-circuits; the
  \<^verbatim>\<open>reason\<close> array literal then evaluates all three of its elements, so
  \<^verbatim>\<open>title?.trim()\<close> and \<^verbatim>\<open>body?.trim()\<close> are both called before the entry is
  pushed.
\<close>

definition postsBranch ::
  "nat \<Rightarrow> jsval \<Rightarrow> jsval \<Rightarrow> jsval \<Rightarrow> jsval list \<Rightarrow> error + jsval list" where
  "postsBranch index userId title body invalidEntries =
     bindE (orE (Inr (typeof userId \<noteq> ''number'')) (orE (notOptTrim title) (notOptTrim body)))
       (\<lambda>violated.
          if violated then
            bindE (notOptTrim title) (\<lambda>t.
            bindE (notOptTrim body) (\<lambda>b.
              Inr (invalidEntries @
                [JObj [(''index'', JNum (int index)),
                       (''userId'', userId),
                       (''title'', title),
                       (''body'', body),
                       (''reason'', JArr (filter truthy
                          [andStr (typeof userId \<noteq> ''number'') ''userId is not a number'',
                           andStr t ''title is empty'',
                           andStr b ''body is empty'']))]])))
          else Inr invalidEntries)"

text \<open>The \<^verbatim>\<open>"Users"\<close> branch: the entry stores the name under the local alias.\<close>

definition usersBranch :: "nat \<Rightarrow> jsval \<Rightarrow> jsval list \<Rightarrow> error + jsval list" where
  "usersBranch index userName invalidEntries =
     bindE (notOptTrim userName)
       (\<lambda>blank.
          if blank then
            Inr (invalidEntries @
              [JObj [(''index'', JNum (int index)),
                     (''userName'', userName),
                     (''reason'', JArr [JStr ''name is empty''])]])
          else Inr invalidEntries)"

text \<open>The callback given to \<^verbatim>\<open>data.forEach\<close>: two independent \<^verbatim>\<open>if\<close>s.\<close>

definition validateItem :: "string \<Rightarrow> jsval \<Rightarrow> nat \<Rightarrow> jsval list \<Rightarrow> error + jsval list" where
  "validateItem name item index invalidEntries =
     bindE (destructure item) (\<lambda>(userId, title, body, userName).
     bindE (if name = ''Posts'' then postsBranch index userId title body invalidEntries
            else Inr invalidEntries) (\<lambda>entries1.
     if name = ''Users'' then usersBranch index userName entries1 else Inr entries1))"

text \<open>\<^verbatim>\<open>data.forEach((item, index) => ...)\<close> from position \<open>index\<close> on.\<close>

fun forEachFrom :: "string \<Rightarrow> nat \<Rightarrow> jsval list \<Rightarrow> jsval list \<Rightarrow> error + jsval list" where
  "forEachFrom name index [] invalidEntries = Inr invalidEntries"
| "forEachFrom name index (item # items) invalidEntries =
     bindE (validateItem name item index invalidEntries) (forEachFrom name (Suc index) items)"

definition validateApiData :: "jsval list \<Rightarrow> string \<Rightarrow> error + jsval list" where
  "validateApiData data name = forEachFrom name 0 data []"

section \<open>validateResources and the inline copy of its loop\<close>

text \<open>
  What \<^verbatim>\<open>await page.goto(resource)\<close> does: it rejects, or it resolves to
  \<^verbatim>\<open>null\<close> (\<open>None\<close>) or to a response whose \<^verbatim>\<open>status()\<close> is the given
  code. The page is one shared tab, so a navigation also changes the page:
  the capability maps the page's state and a URL to the outcome and the next
  state.
\<close>

datatype gotoResult = Rejects | Resolves "int option"

type_synonym 'p page = "'p \<Rightarrow> string \<Rightarrow> gotoResult \<times> 'p"

record brokenResource =
  resource :: string
  status :: jsval

text \<open>\<^verbatim>\<open>response.status()\<close>: a TypeError when \<open>response\<close> is \<^verbatim>\<open>null\<close>.\<close>

definition statusOf :: "int option \<Rightarrow> error + int" where
  "statusOf response = (case response of None \<Rightarrow> Inl TypeError | Some code \<Rightarrow> Inr code)"

text \<open>\<^verbatim>\<open>response ? response.status() : "No Response"\<close>.\<close>

definition statusOrNoResponse :: "int option \<Rightarrow> error + jsval" where
  "statusOrNoResponse response =
     (if response \<noteq> None then bindE (statusOf response) (\<lambda>code. Inr (JNum code))
      else Inr (JStr ''No Response''))"

text \<open>
  The body of the \<^verbatim>\<open>try\<close> block of the helper, once \<^verbatim>\<open>page.goto\<close> has
  resolved: \<^verbatim>\<open>if (!response || response.status() !== 200) push(...)\<close>.
\<close>

definition helperTry ::
  "string \<Rightarrow> int option \<Rightarrow> brokenResource list \<Rightarrow> error + brokenResource list" where
  "helperTry res response brokenResources =
     bindE (orE (Inr (response = None)) (bindE (statusOf response) (\<lambda>code. Inr (code \<noteq> 200))))
       (\<lambda>broken.
          if broken then
            bindE (statusOrNoResponse response) (\<lambda>st.
              Inr (brokenResources @ [\<lparr>resource = res, status = st\<rparr>]))
          else Inr brokenResources)"

text \<open>
  The same block of the inline loop of the test file:
  \<^verbatim>\<open>if (response.status() !== 200) push(...)\<close>, with no test of \<open>response\<close>
  before its status is read.
\<close>

definition inlineTry ::
  "string \<Rightarrow> int option \<Rightarrow> brokenResource list \<Rightarrow> error + brokenResource list" where
  "inlineTry res response brokenResources =
     bindE (bindE (statusOf response) (\<lambda>code. Inr (code \<noteq> 200)))
       (\<lambda>broken.
          if broken then
            bindE (statusOrNoResponse response) (\<lambda>st.
              Inr (brokenResources @ [\<lparr>resource = res, status = st\<rparr>]))
          else Inr brokenResources)"

text \<open>
  One iteration: \<^verbatim>\<open>try { ... } catch (err) { push({resource, status: "Error"}) }\<close>.
  A rejected navigation and a fault raised inside the block both reach the
  handler; the block pushes nothing before it can fail.
\<close>

definition checkWith ::
  "(string \<Rightarrow> int option \<Rightarrow> brokenResource list \<Rightarrow> error + brokenResource list) \<Rightarrow>
   string \<Rightarrow> gotoResult \<Rightarrow> brokenResource list \<Rightarrow> brokenResource list" where
  "checkWith tryBody res outcome brokenResources =
     (case (case outcome of Rejects \<Rightarrow> Inl IOError
                          | Resolves response \<Rightarrow> tryBody res response brokenResources) of
        Inl err \<Rightarrow> brokenResources @ [\<lparr>resource = res, status = JStr ''Error''\<rparr>]
      | Inr pushed \<Rightarrow> pushed)"

text \<open>\<^verbatim>\<open>for (const resource of resources)\<close>, threading the list and the page.\<close>

fun resourceLoop ::
  "(string \<Rightarrow> int option \<Rightarrow> brokenResource list \<Rightarrow> error + brokenResource list) \<Rightarrow>
   'p page \<Rightarrow> 'p \<Rightarrow> string list \<Rightarrow> brokenResource list \<Rightarrow> brokenResource list \<times> 'p" where
  "resourceLoop tryBody goto p [] brokenResources = (brokenResources, p)"
| "resourceLoop tryBody goto p (res # rest) brokenResources =
     (case goto p res of
        (outcome, p') \<Rightarrow>
          resourceLoop tryBody goto p' rest (checkWith tryBody res outcome brokenResources))"

definition validateResources :: "'p page \<Rightarrow> 'p \<Rightarrow> string list \<Rightarrow> brokenResource list \<times> 'p" where
  "validateResources goto p resources = resourceLoop helperTry goto p resources []"

definition inlineValidate :: "'p page \<Rightarrow> 'p \<Rightarrow> string list \<Rightarrow> brokenResource list \<times> 'p" where
  "inlineValidate goto p resources = resourceLoop inlineTry goto p resources []"

text \<open>The outcomes of the navigations a run over \<open>resources\<close> makes, in order.\<close>

fun navigations :: "'p page \<Rightarrow> 'p \<Rightarrow> string list \<Rightarrow> gotoResult list" where
  "navigations goto p [] = []"
| "navigations goto p (res # rest) =
     (case goto p res of (outcome, p') \<Rightarrow> outcome # navigations goto p' rest)"

text \<open>
  The data model's ResourceCheckResult, in the specification's words: one per
  input URL, in input order; the status is the HTTP status code when a response
  was obtained, and otherwise one of the two sentinel strings.
\<close>

definition resultStatus :: "gotoResult \<Rightarrow> jsval" where
  "resultStatus outcome =
     (case outcome of
        Rejects \<Rightarrow> JStr ''Error''
      | Resolves None \<Rightarrow> JStr ''No Response''
      | Resolves (Some code) \<Rightarrow> JNum code)"

definition resourceCheckResults :: "'p page \<Rightarrow> 'p \<Rightarrow> string list \<Rightarrow> brokenResource list" where
  "resourceCheckResults goto p resources =
     map (\<lambda>(res, outcome). \<lparr>resource = res, status = resultStatus outcome\<rparr>)
       (zip resources (navigations goto p resources))"

section \<open>The audit scenario\<close>

text \<open>
  The first test of \<^verbatim>\<open>website-analysis-and-resource-validation.spec.js\<close>, from
  the launch of the persistent context on. The environment says which of the
  external calls raise; the scenario returns the events it causes, in order,
  and how it ends.
\<close>

record auditEnv =
  reportsDirExists :: bool
  mkdirFails :: bool
  lighthouseFails :: bool
  writeFileFails :: bool
  categoryMissing :: bool
  closeFails :: bool

datatype event =
    Launched
  | DirectoryCreated
  | ReportWritten
  | Attached string
  | CloseCalled
  | CloseErrorLogged

text \<open>\<^verbatim>\<open>if (!fs.existsSync(dirPath)) fs.mkdirSync(dirPath);\<close>\<close>

definition ensureDirectoryExists :: "auditEnv \<Rightarrow> event list \<times> (error + unit)" where
  "ensureDirectoryExists env =
     (if \<not> reportsDirExists env then
        (if mkdirFails env then ([], Inl IOError) else ([DirectoryCreated], Inr ()))
      else ([], Inr ()))"

text \<open>
  \<^verbatim>\<open>try { await browserContext.close(); } catch (error) { console.error(...) }\<close>:
  it never raises.
\<close>

definition closeBrowserContextSafely :: "auditEnv \<Rightarrow> event list" where
  "closeBrowserContextSafely env =
     (if closeFails env then [CloseCalled, CloseErrorLogged] else [CloseCalled])"

text \<open>
  The \<^verbatim>\<open>try\<close> block: run the oracle, save and attach the report, attach it
  again, extract and attach the scores.
\<close>

definition auditTry :: "auditEnv \<Rightarrow> event list \<times> (error + unit)" where
  "auditTry env =
     (if lighthouseFails env then ([], Inl OracleError)
      else if writeFileFails env then ([], Inl IOError)
      else if categoryMissing env then
        ([ReportWritten, Attached ''Lighthouse Report'', Attached ''Lighthouse Report''],
         Inl TypeError)
      else
        ([ReportWritten, Attached ''Lighthouse Report'', Attached ''Lighthouse Report'',
          Attached ''Lighthouse Scores''], Inr ()))"

text \<open>
  The callback of \<^verbatim>\<open>test.step\<close>: the directory is prepared before the
  \<^verbatim>\<open>try\<close> statement is entered; \<^verbatim>\<open>catch\<close> attaches the message and rethrows;
  \<^verbatim>\<open>finally\<close> closes the context.
\<close>

definition auditStep :: "auditEnv \<Rightarrow> event list \<times> (error + unit)" where
  "auditStep env =
     (case ensureDirectoryExists env of
        (prepared, Inl err) \<Rightarrow> (prepared, Inl err)
      | (prepared, Inr u) \<Rightarrow>
          (case auditTry env of
             (done, Inl err) \<Rightarrow>
               (prepared @ done @ [Attached ''Lighthouse Error''] @ closeBrowserContextSafely env,
                Inl err)
           | (done, Inr v) \<Rightarrow> (prepared @ done @ closeBrowserContextSafely env, Inr v)))"

definition auditScenario :: "auditEnv \<Rightarrow> event list \<times> (error + unit)" where
  "auditScenario env = (case auditStep env of (events, result) \<Rightarrow> (Launched # events, result))"

section \<open>The shape rules in the specification's words\<close>

text \<open>
  Blank: the value is null or undefined, or is a string whose trimmed form is
  empty.
\<close>

definition specBlank :: "jsval \<Rightarrow> bool" where
  "specBlank v =
     (case v of JUndefined \<Rightarrow> True | JNull \<Rightarrow> True | JStr s \<Rightarrow> trim s = [] | _ \<Rightarrow> False)"

text \<open>
  The rule of the label \<^verbatim>\<open>"Posts"\<close>: the description of every violated
  sub-condition, in the order userId, title, body; a condition that passes
  contributes nothing.
\<close>

definition postReasons :: "jsval \<Rightarrow> string list" where
  "postReasons item =
     (if typeof (getProp item ''userId'') \<noteq> ''number'' then [''userId is not a number''] else []) @
     (if specBlank (getProp item ''title'') then [''title is empty''] else []) @
     (if specBlank (getProp item ''body'') then [''body is empty''] else [])"

text \<open>A record fails a shape rule of its label.\<close>

definition failsRule :: "string \<Rightarrow> jsval \<Rightarrow> bool" where
  "failsRule name item =
     (if name = ''Posts'' then postReasons item \<noteq> []
      else if name = ''Users'' then specBlank (getProp item ''name'')
      else False)"

section \<open>Notions used in the statements\<close>

text \<open>A checked string field the validator can test: nullish, or a string.\<close>

definition nullishOrString :: "jsval \<Rightarrow> bool" where
  "nullishOrString v =
     (case v of JUndefined \<Rightarrow> True | JNull \<Rightarrow> True | JStr s \<Rightarrow> True | _ \<Rightarrow> False)"

text \<open>A record of the payload is a decoded JSON object.\<close>

definition isRecord :: "jsval \<Rightarrow> bool" where
  "isRecord v = (case v of JObj kvs \<Rightarrow> True | _ \<Rightarrow> False)"

text \<open>The validator can test every checked string field of the record.\<close>

definition checkable :: "string \<Rightarrow> jsval \<Rightarrow> bool" where
  "checkable name item =
     (item \<noteq> JUndefined \<and> item \<noteq> JNull \<and>
      (if name = ''Posts'' then
         nullishOrString (getProp item ''title'') \<and> nullishOrString (getProp item ''body'')
       else if name = ''Users'' then nullishOrString (getProp item ''name'')
       else True))"

text \<open>The entry pushed for the record at position \<open>index\<close>, per label.\<close>

definition entryFor :: "string \<Rightarrow> nat \<times> jsval \<Rightarrow> jsval" where
  "entryFor name = (\<lambda>(index, item).
     if name = ''Posts'' then
       JObj [(''index'', JNum (int index)),
             (''userId'', getProp item ''userId''),
             (''title'', getProp item ''title''),
             (''body'', getProp item ''body''),
             (''reason'', JArr (map JStr (postReasons item)))]
     else
       JObj [(''index'', JNum (int index)),
             (''userName'', getProp item ''name''),
             (''reason'', JArr [JStr ''name is empty''])])"

section \<open>Sample inputs\<close>

text \<open>
  A page that answers by URL and counts its navigations: a stylesheet that
  loads, a script that is gone, a same-document link (the navigation resolves
  to no response), and a text that is no URL (the navigation rejects).
\<close>

definition samplePage :: "nat page" where
  "samplePage visits url =
     ((if url = ''/ok.css'' then Resolves (Some 200)
       else if url = ''/gone.js'' then Resolves (Some 404)
       else if url = ''#top'' then Resolves None
       else Rejects), Suc visits)"

text \<open>Three posts: a valid one, the specification's example, one with no title.\<close>

definition samplePosts :: "jsval list" where
  "samplePosts =
     [JObj [(''userId'', JNum 1), (''title'', JStr ''a''), (''body'', JStr ''b'')],
      JObj [(''userId'', JStr ''x''), (''title'', JStr ''''), (''body'', JStr ''ok'')],
      JObj [(''userId'', JNum 2), (''body'', JStr ''  '')]]"

text \<open>Three users: a blank name, a proper name, no name at all.\<close>

definition sampleUsers :: "jsval list" where
  "sampleUsers =
     [JObj [(''name'', JStr '' '')], JObj [(''name'', JStr ''Ann'')], JObj [(''id'', JNum 3)]]"

text \<open>
  The reports directory is absent and cannot be created; every other call
  would succeed.
\<close>

definition mkdirFailure :: auditEnv where
  "mkdirFailure =
     \<lparr>reportsDirExists = False, mkdirFails = True, lighthouseFails = False,
      writeFileFails = False, categoryMissing = False, closeFails = False\<rparr>"

section \<open>Properties of the resource validator\<close>

lemma checkWith_helper:
  "checkWith helperTry res outcome acc =
     acc @ (if outcome = Resolves (Some 200) then []
            else [\<lparr>resource = res, status = resultStatus outcome\<rparr>])"
  by (auto simp: checkWith_def helperTry_def orE_def bindE_def statusOf_def statusOrNoResponse_def
        resultStatus_def split: gotoResult.splits option.splits)

lemma checkWith_inline:
  "checkWith inlineTry res outcome acc =
     acc @ (if outcome = Resolves (Some 200) then []
            else [\<lparr>resource = res,
                   status = (if outcome = Resolves None then JStr ''Error''
                             else resultStatus outcome)\<rparr>])"
  by (auto simp: checkWith_def inlineTry_def bindE_def statusOf_def statusOrNoResponse_def
        resultStatus_def split: gotoResult.splits option.splits)

lemma resultStatus_200: "(resultStatus outcome = JNum 200) = (outcome = Resolves (Some 200))"
  by (auto simp: resultStatus_def split: gotoResult.splits option.splits)

lemma resourceCheckResults_Cons:
  "goto p r = (outcome, p') \<Longrightarrow>
   resourceCheckResults goto p (r # rs) =
     \<lparr>resource = r, status = resultStatus outcome\<rparr> # resourceCheckResults goto p' rs"
  by (simp add: resourceCheckResults_def)

lemma resourceLoop_helper:
  "fst (resourceLoop helperTry goto p rs acc) =
     acc @ filter (\<lambda>e. status e \<noteq> JNum 200) (resourceCheckResults goto p rs)"
proof (induction rs arbitrary: p acc)
  case Nil
  then show ?case by (simp add: resourceCheckResults_def)
next
  case (Cons r rs)
  obtain outcome p' where g: "goto p r = (outcome, p')" by (cases "goto p r")
  show ?case
    by (simp add: g Cons.IH checkWith_helper resourceCheckResults_Cons [of goto p r outcome p'] resultStatus_200)
qed

lemma validateResources_eq:
  "fst (validateResources goto p rs) =
     filter (\<lambda>e. status e \<noteq> JNum 200) (resourceCheckResults goto p rs)"
  by (simp add: validateResources_def resourceLoop_helper)

lemma length_navigations: "length (navigations goto p rs) = length rs"
proof (induction rs arbitrary: p)
  case Nil
  then show ?case by simp
next
  case (Cons r rs)
  then show ?case by (cases "goto p r") simp
qed

lemma navigations_take: "navigations goto p (take n rs) = take n (navigations goto p rs)"
proof (induction rs arbitrary: p n)
  case Nil
  then show ?case by simp
next
  case (Cons r rs)
  show ?case
  proof (cases n)
    case 0
    then show ?thesis by simp
  next
    case (Suc m)
    then show ?thesis by (cases "goto p r") (simp add: Cons.IH)
  qed
qed

lemma resourceCheckResults_take:
  "resourceCheckResults goto p (take n rs) = take n (resourceCheckResults goto p rs)"
  by (simp add: resourceCheckResults_def navigations_take take_zip take_map)

lemma length_resourceCheckResults: "length (resourceCheckResults goto p rs) = length rs"
  by (simp add: resourceCheckResults_def length_navigations)

lemma nth_resourceCheckResults:
  "i < length rs \<Longrightarrow>
   resourceCheckResults goto p rs ! i =
     \<lparr>resource = rs ! i, status = resultStatus (navigations goto p rs ! i)\<rparr>"
  by (simp add: resourceCheckResults_def length_navigations)

lemma map_resource_results: "map resource (resourceCheckResults goto p rs) = rs"
proof -
  have "map resource (resourceCheckResults goto p rs) = map fst (zip rs (navigations goto p rs))"
    by (simp add: resourceCheckResults_def case_prod_unfold comp_def)
  then show ?thesis by (simp add: length_navigations)
qed

lemma validateResources_subseq:
  "subseq (map resource (fst (validateResources goto p rs))) rs"
proof -
  have "subseq (filter (\<lambda>e. status e \<noteq> JNum 200) (resourceCheckResults goto p rs))
          (resourceCheckResults goto p rs)"
    by simp
  then have "subseq (map resource (fst (validateResources goto p rs)))
               (map resource (resourceCheckResults goto p rs))"
    unfolding validateResources_eq by (rule subseq_map)
  then show ?thesis by (simp add: map_resource_results)
qed

lemma validateResources_step:
  assumes "i < length rs"
  shows "fst (validateResources goto p (take (Suc i) rs)) =
           fst (validateResources goto p (take i rs)) @
           (if navigations goto p rs ! i = Resolves (Some 200) then []
            else [\<lparr>resource = rs ! i, status = resultStatus (navigations goto p rs ! i)\<rparr>])"
proof -
  have "take (Suc i) (resourceCheckResults goto p rs) =
          take i (resourceCheckResults goto p rs) @ [resourceCheckResults goto p rs ! i]"
    using assms by (simp add: take_Suc_conv_app_nth length_resourceCheckResults)
  then show ?thesis
    using assms
    by (simp add: validateResources_eq resourceCheckResults_take nth_resourceCheckResults
        resultStatus_200)
qed

lemma validateResources_prefix:
  "prefix (fst (validateResources goto p (take n rs))) (fst (validateResources goto p rs))"
proof -
  have "resourceCheckResults goto p rs =
          take n (resourceCheckResults goto p rs) @ drop n (resourceCheckResults goto p rs)"
    by simp
  then have "filter (\<lambda>e. status e \<noteq> JNum 200) (resourceCheckResults goto p rs) =
          filter (\<lambda>e. status e \<noteq> JNum 200) (take n (resourceCheckResults goto p rs)) @
          filter (\<lambda>e. status e \<noteq> JNum 200) (drop n (resourceCheckResults goto p rs))"
    by (metis filter_append)
  then show ?thesis
    by (simp add: validateResources_eq resourceCheckResults_take prefix_def)
qed

lemma resourceLoop_agree:
  "Resolves None \<notin> set (navigations goto p rs) \<Longrightarrow>
   resourceLoop inlineTry goto p rs acc = resourceLoop helperTry goto p rs acc"
proof (induction rs arbitrary: p acc)
  case Nil
  then show ?case by simp
next
  case (Cons r rs)
  obtain outcome p' where g: "goto p r = (outcome, p')" by (cases "goto p r")
  with Cons.prems have "outcome \<noteq> Resolves None" "Resolves None \<notin> set (navigations goto p' rs)"
    by auto
  then show ?case
    by (simp add: g Cons.IH checkWith_helper checkWith_inline)
qed

text \<open>
  Claim C1. The list \<open>validateResources\<close> returns is the subsequence of the
  per-URL check results whose status is not 200, whatever the URLs and the
  page: a check result has status 200 or appears in the returned list, never
  both.
\<close>

theorem validateResources_status_partition:
  "fst (validateResources goto p resources) =
     filter (\<lambda>e. status e \<noteq> JNum 200) (resourceCheckResults goto p resources) \<and>
   (\<forall>e \<in> set (resourceCheckResults goto p resources).
      (status e = JNum 200) \<noteq> (e \<in> set (fst (validateResources goto p resources))))"
  by (simp add: validateResources_eq)

theorem validateResources_status_partition_witness:
  "fst (validateResources samplePage 0 [''/ok.css'', ''/gone.js'', ''#top'', ''???'']) =
     [\<lparr>resource = ''/gone.js'', status = JNum 404\<rparr>,
      \<lparr>resource = ''#top'', status = JStr ''No Response''\<rparr>,
      \<lparr>resource = ''???'', status = JStr ''Error''\<rparr>] \<and>
   resourceCheckResults samplePage 0 [''/ok.css'', ''/gone.js'', ''#top'', ''???''] =
     [\<lparr>resource = ''/ok.css'', status = JNum 200\<rparr>,
      \<lparr>resource = ''/gone.js'', status = JNum 404\<rparr>,
      \<lparr>resource = ''#top'', status = JStr ''No Response''\<rparr>,
      \<lparr>resource = ''???'', status = JStr ''Error''\<rparr>]"
  using validateResources_status_partition
    [of samplePage 0 "[''/ok.css'', ''/gone.js'', ''#top'', ''???'']"]
  by (simp add: resourceCheckResults_def samplePage_def resultStatus_def)

text \<open>
  Claim C2. Processing the URL at position \<open>i\<close> appends one entry to the list
  built so far when the navigation rejects (status \<^verbatim>\<open>"Error"\<close>), when it
  resolves to no response (status \<^verbatim>\<open>"No Response"\<close>) and when it resolves to
  a response whose code is not 200 (status that code); the list built so far
  stays a prefix of the returned list.
\<close>

theorem validateResources_fault_classification:
  assumes "i < length resources"
  shows "let before = fst (validateResources goto p (take i resources));
             after = fst (validateResources goto p (take (Suc i) resources));
             outcome = navigations goto p resources ! i;
             res = resources ! i
         in prefix after (fst (validateResources goto p resources)) \<and>
            (outcome = Rejects \<longrightarrow>
               after = before @ [\<lparr>resource = res, status = JStr ''Error''\<rparr>]) \<and>
            (outcome = Resolves None \<longrightarrow>
               after = before @ [\<lparr>resource = res, status = JStr ''No Response''\<rparr>]) \<and>
            (\<forall>code. outcome = Resolves (Some code) \<and> code \<noteq> 200 \<longrightarrow>
               after = before @ [\<lparr>resource = res, status = JNum code\<rparr>])"
  using validateResources_step [OF assms, of goto p] validateResources_prefix [of goto p "Suc i" resources]
  by (simp add: Let_def resultStatus_def)

theorem validateResources_fault_classification_witness:
  "fst (validateResources samplePage 0 (take 4 [''/ok.css'', ''/gone.js'', ''#top'', ''???''])) =
     fst (validateResources samplePage 0 (take 3 [''/ok.css'', ''/gone.js'', ''#top'', ''???''])) @
       [\<lparr>resource = ''???'', status = JStr ''Error''\<rparr>] \<and>
   fst (validateResources samplePage 0 (take 3 [''/ok.css'', ''/gone.js'', ''#top'', ''???''])) =
     fst (validateResources samplePage 0 (take 2 [''/ok.css'', ''/gone.js'', ''#top'', ''???''])) @
       [\<lparr>resource = ''#top'', status = JStr ''No Response''\<rparr>] \<and>
   fst (validateResources samplePage 0 (take 2 [''/ok.css'', ''/gone.js'', ''#top'', ''???''])) =
     fst (validateResources samplePage 0 (take 1 [''/ok.css'', ''/gone.js'', ''#top'', ''???''])) @
       [\<lparr>resource = ''/gone.js'', status = JNum 404\<rparr>]"
  using
    validateResources_fault_classification
      [of 3 "[''/ok.css'', ''/gone.js'', ''#top'', ''???'']" samplePage 0]
    validateResources_fault_classification
      [of 2 "[''/ok.css'', ''/gone.js'', ''#top'', ''???'']" samplePage 0]
    validateResources_fault_classification
      [of 1 "[''/ok.css'', ''/gone.js'', ''#top'', ''???'']" samplePage 0]
  by (simp add: Let_def samplePage_def)

lemma inline_agrees_without_null_response:
  "Resolves None \<notin> set (navigations goto p resources) \<Longrightarrow>
   inlineValidate goto p resources = validateResources goto p resources"
  by (simp add: inlineValidate_def validateResources_def resourceLoop_agree)

text \<open>
  Claim C9. The inline loop and the helper agree as long as no navigation
  resolves to no response (\<open>inline_agrees_without_null_response\<close>). For a URL
  whose navigation resolves to no response they differ: the inline loop reads
  the status of \<^verbatim>\<open>null\<close>, lands in its handler and records \<^verbatim>\<open>"Error"\<close>;
  the helper records \<^verbatim>\<open>"No Response"\<close>.
\<close>

theorem inline_loop_differs_on_null_response:
  "fst (inlineValidate samplePage 0 [''#top'']) = [\<lparr>resource = ''#top'', status = JStr ''Error''\<rparr>] \<and>
   fst (validateResources samplePage 0 [''#top'']) =
     [\<lparr>resource = ''#top'', status = JStr ''No Response''\<rparr>]"
  by (simp add: inlineValidate_def validateResources_def checkWith_def inlineTry_def helperTry_def
      statusOf_def statusOrNoResponse_def orE_def bindE_def samplePage_def)

section \<open>Properties of the API record validator\<close>

lemma notOptTrim_eq:
  "notOptTrim v = (if nullishOrString v then Inr (specBlank v) else Inl TypeError)"
  by (cases v) (simp_all add: notOptTrim_def bindE_def nullishOrString_def specBlank_def)

lemma postsBranch_eq:
  "postsBranch i (getProp item ''userId'') (getProp item ''title'') (getProp item ''body'') acc =
     (if nullishOrString (getProp item ''title'') \<and> nullishOrString (getProp item ''body'')
      then Inr (acc @ (if failsRule ''Posts'' item then [entryFor ''Posts'' (i, item)] else []))
      else Inl TypeError)"
  by (simp add: postsBranch_def notOptTrim_eq orE_def bindE_def failsRule_def entryFor_def
      postReasons_def andStr_def)

lemma usersBranch_eq:
  "usersBranch i (getProp item ''name'') acc =
     (if nullishOrString (getProp item ''name'')
      then Inr (acc @ (if failsRule ''Users'' item then [entryFor ''Users'' (i, item)] else []))
      else Inl TypeError)"
  by (simp add: usersBranch_def notOptTrim_eq bindE_def failsRule_def entryFor_def)

lemma validateItem_eq:
  "validateItem name item i acc =
     (if checkable name item
      then Inr (acc @ (if failsRule name item then [entryFor name (i, item)] else []))
      else Inl TypeError)"
proof -
  consider "name = ''Posts''" | "name = ''Users''" | "name \<noteq> ''Posts''" "name \<noteq> ''Users''"
    by blast
  then show ?thesis
  proof cases
    case 1
    then show ?thesis
      by (simp add: validateItem_def destructure_def postsBranch_eq bindE_def checkable_def)
  next
    case 2
    then show ?thesis
      by (simp add: validateItem_def destructure_def usersBranch_eq bindE_def checkable_def)
  next
    case 3
    then show ?thesis
      by (simp add: validateItem_def destructure_def bindE_def checkable_def failsRule_def)
  qed
qed

lemma forEachFrom_eq:
  "forEachFrom name k items acc =
     (if \<forall>item \<in> set items. checkable name item
      then Inr (acc @ map (entryFor name)
                 (filter (\<lambda>(i, item). failsRule name item) (enumerate k items)))
      else Inl TypeError)"
proof (induction items arbitrary: k acc)
  case Nil
  then show ?case by simp
next
  case (Cons item items)
  show ?case
    by (simp add: validateItem_eq bindE_def Cons.IH)
qed

lemma validateApiData_eq:
  "validateApiData data name =
     (if \<forall>item \<in> set data. checkable name item
      then Inr (map (entryFor name) (filter (\<lambda>(i, item). failsRule name item) (enumerate 0 data)))
      else Inl TypeError)"
  by (simp add: validateApiData_def forEachFrom_eq)

lemma validateApiData_Inr:
  "validateApiData data name = Inr out \<Longrightarrow>
   (\<forall>item \<in> set data. checkable name item) \<and>
   out = map (entryFor name) (filter (\<lambda>(i, item). failsRule name item) (enumerate 0 data))"
  by (simp add: validateApiData_eq split: if_splits)

lemma index_entryFor: "getProp (entryFor name (i, item)) ''index'' = JNum (int i)"
  by (simp add: entryFor_def)

lemma reason_entryFor_Posts:
  "getProp (entryFor ''Posts'' (i, item)) ''reason'' = JArr (map JStr (postReasons item))"
  by (simp add: entryFor_def)

lemma filter_via_enumerate:
  "filter P xs = map snd (filter (\<lambda>(i, x). P x) (enumerate k xs))"
  by (induction xs arbitrary: k) simp_all

lemma failing_positions_sorted:
  "sorted_wrt (<) (map fst (filter P (enumerate k items)))"
proof -
  have "sorted_wrt (<) (map fst (enumerate k items))"
    by simp
  then have "sorted_wrt (\<lambda>a b. fst a < fst b) (enumerate k items)"
    unfolding sorted_wrt_map .
  then have "sorted_wrt (\<lambda>a b. fst a < fst b) (filter P (enumerate k items))"
    by (rule sorted_wrt_filter)
  then show ?thesis
    unfolding sorted_wrt_map .
qed

lemma failing_position_nth:
  assumes "j < length (filter (\<lambda>(i, item). P item) (enumerate 0 items))"
  shows "\<exists>i. filter (\<lambda>(i, item). P item) (enumerate 0 items) ! j = (i, items ! i) \<and>
             i < length items \<and> P (items ! i)"
proof -
  let ?f = "filter (\<lambda>(i, item). P item) (enumerate 0 items)"
  obtain i item where e: "?f ! j = (i, item)" by (cases "?f ! j")
  have "?f ! j \<in> set ?f" using assms by (rule nth_mem)
  with e have "(i, item) \<in> set (enumerate 0 items)" "P item" by auto
  then have "i < length items" "item = items ! i" "P item"
    by (auto simp: in_set_enumerate_eq)
  with e show ?thesis by auto
qed

lemma samplePosts_result:
  "validateApiData samplePosts ''Posts'' =
     Inr [JObj [(''index'', JNum 1), (''userId'', JStr ''x''), (''title'', JStr ''''),
                (''body'', JStr ''ok''),
                (''reason'', JArr [JStr ''userId is not a number'', JStr ''title is empty''])],
          JObj [(''index'', JNum 2), (''userId'', JNum 2), (''title'', JUndefined),
                (''body'', JStr ''  ''),
                (''reason'', JArr [JStr ''title is empty'', JStr ''body is empty''])]]"
  by (simp add: samplePosts_def validateApiData_def validateItem_def destructure_def
      postsBranch_def notOptTrim_def orE_def bindE_def andStr_def trim_def isWhiteSpace_def)

lemma sampleUsers_result:
  "validateApiData sampleUsers ''Users'' =
     Inr [JObj [(''index'', JNum 0), (''userName'', JStr '' ''),
                (''reason'', JArr [JStr ''name is empty''])],
          JObj [(''index'', JNum 2), (''userName'', JUndefined),
                (''reason'', JArr [JStr ''name is empty''])]]"
  by (simp add: sampleUsers_def validateApiData_def validateItem_def destructure_def
      usersBranch_def notOptTrim_def bindE_def trim_def isWhiteSpace_def)

text \<open>
  Claim C3. Under the label \<^verbatim>\<open>"Posts"\<close> the reason list of every entry holds
  the description of each violated sub-condition of its record (userId not a
  number, title blank, body blank), in that order, and nothing else; the record
  \<^verbatim>\<open>{userId: "x", title: "", body: "ok"}\<close> gives the reasons
  \<^verbatim>\<open>["userId is not a number", "title is empty"]\<close>.
\<close>

theorem posts_reason_completeness:
  "(validateApiData data ''Posts'' = Inr out \<longrightarrow>
      (\<forall>e \<in> set out. \<exists>i < length data.
          getProp e ''index'' = JNum (int i) \<and>
          getProp e ''reason'' = JArr (map JStr (postReasons (data ! i))))) \<and>
   validateApiData
     [JObj [(''userId'', JStr ''x''), (''title'', JStr ''''), (''body'', JStr ''ok'')]] ''Posts'' =
     Inr [JObj [(''index'', JNum 0), (''userId'', JStr ''x''), (''title'', JStr ''''),
                (''body'', JStr ''ok''),
                (''reason'', JArr [JStr ''userId is not a number'', JStr ''title is empty''])]]"
proof (intro conjI impI ballI)
  fix e
  assume ok: "validateApiData data ''Posts'' = Inr out" and e: "e \<in> set out"
  from validateApiData_Inr [OF ok] e
  obtain i item where "(i, item) \<in> set (enumerate 0 data)" "e = entryFor ''Posts'' (i, item)"
    by auto
  then have "i < length data" "e = entryFor ''Posts'' (i, data ! i)"
    by (auto simp: in_set_enumerate_eq)
  then show "\<exists>i < length data. getProp e ''index'' = JNum (int i) \<and>
      getProp e ''reason'' = JArr (map JStr (postReasons (data ! i)))"
    using index_entryFor reason_entryFor_Posts by blast
next
  show "validateApiData
     [JObj [(''userId'', JStr ''x''), (''title'', JStr ''''), (''body'', JStr ''ok'')]] ''Posts'' =
     Inr [JObj [(''index'', JNum 0), (''userId'', JStr ''x''), (''title'', JStr ''''),
                (''body'', JStr ''ok''),
                (''reason'', JArr [JStr ''userId is not a number'', JStr ''title is empty''])]]"
    by (simp add: validateApiData_def validateItem_def destructure_def postsBranch_def
        notOptTrim_def orE_def bindE_def andStr_def trim_def isWhiteSpace_def)
qed

theorem posts_reason_completeness_witness:
  "validateApiData samplePosts ''Posts'' =
     Inr [JObj [(''index'', JNum 1), (''userId'', JStr ''x''), (''title'', JStr ''''),
                (''body'', JStr ''ok''),
                (''reason'', JArr [JStr ''userId is not a number'', JStr ''title is empty''])],
          JObj [(''index'', JNum 2), (''userId'', JNum 2), (''title'', JUndefined),
                (''body'', JStr ''  ''),
                (''reason'', JArr [JStr ''title is empty'', JStr ''body is empty''])]] \<and>
   (\<exists>i < length samplePosts.
      JNum 2 = JNum (int i) \<and>
      JArr [JStr ''title is empty'', JStr ''body is empty''] =
        JArr (map JStr (postReasons (samplePosts ! i))))"
  using posts_reason_completeness [of samplePosts
     "[JObj [(''index'', JNum 1), (''userId'', JStr ''x''), (''title'', JStr ''''),
                (''body'', JStr ''ok''),
                (''reason'', JArr [JStr ''userId is not a number'', JStr ''title is empty''])],
          JObj [(''index'', JNum 2), (''userId'', JNum 2), (''title'', JUndefined),
                (''body'', JStr ''  ''),
                (''reason'', JArr [JStr ''title is empty'', JStr ''body is empty''])]]"]
    samplePosts_result
  by simp

text \<open>
  Claim C6. The test \<^verbatim>\<open>!v?.trim()\<close> of the title, body and name checks says
  blank exactly when the value is null, undefined, or a string whose trimmed
  form is empty; \<^verbatim>\<open>"  "\<close>, \<^verbatim>\<open>""\<close>, \<^verbatim>\<open>null\<close> and \<^verbatim>\<open>undefined\<close> are blank.
  Run through \<open>validateApiData\<close>: a user record gets its entry exactly when its
  name is blank; a post whose userId and body pass gets the entry with the one
  reason \<^verbatim>\<open>"title is empty"\<close> exactly when its title is blank; a post whose
  userId and title pass gets the entry with the one reason
  \<^verbatim>\<open>"body is empty"\<close> exactly when its body is blank; and posts with the
  titles \<^verbatim>\<open>"  "\<close>, \<^verbatim>\<open>""\<close> and none, and the body \<^verbatim>\<open>null\<close>, get these
  reasons.
\<close>

theorem blank_classification:
  "(notOptTrim v = Inr True) = specBlank v \<and>
   notOptTrim (JStr ''  '') = Inr True \<and>
   notOptTrim (JStr '''') = Inr True \<and>
   notOptTrim JNull = Inr True \<and>
   notOptTrim JUndefined = Inr True \<and>
   (validateApiData [JObj [(''name'', v)]] ''Users'' =
      Inr [JObj [(''index'', JNum 0), (''userName'', v), (''reason'', JArr [JStr ''name is empty''])]])
     = specBlank v \<and>
   (validateApiData
      [JObj [(''userId'', JNum n), (''title'', v), (''body'', JStr ''ok'')]] ''Posts'' =
      Inr [JObj [(''index'', JNum 0), (''userId'', JNum n), (''title'', v), (''body'', JStr ''ok''),
                 (''reason'', JArr [JStr ''title is empty''])]])
     = specBlank v \<and>
   (validateApiData
      [JObj [(''userId'', JNum n), (''title'', JStr ''ok''), (''body'', v)]] ''Posts'' =
      Inr [JObj [(''index'', JNum 0), (''userId'', JNum n), (''title'', JStr ''ok''), (''body'', v),
                 (''reason'', JArr [JStr ''body is empty''])]])
     = specBlank v \<and>
   validateApiData
      [JObj [(''userId'', JNum 7), (''title'', JStr ''  ''), (''body'', JNull)],
       JObj [(''userId'', JNum 8), (''title'', JStr ''''), (''body'', JStr ''ok'')],
       JObj [(''userId'', JNum 9), (''body'', JStr '' b '')]] ''Posts'' =
      Inr [JObj [(''index'', JNum 0), (''userId'', JNum 7), (''title'', JStr ''  ''),
                 (''body'', JNull),
                 (''reason'', JArr [JStr ''title is empty'', JStr ''body is empty''])],
           JObj [(''index'', JNum 1), (''userId'', JNum 8), (''title'', JStr ''''),
                 (''body'', JStr ''ok''),
                 (''reason'', JArr [JStr ''title is empty''])],
           JObj [(''index'', JNum 2), (''userId'', JNum 9), (''title'', JUndefined),
                 (''body'', JStr '' b ''),
                 (''reason'', JArr [JStr ''title is empty''])]]"
proof -
  have ok: "trim ''ok'' = ''ok''"
    by (simp add: trim_def isWhiteSpace_def)
  have "(notOptTrim v = Inr True) = specBlank v"
    by (cases v) (simp_all add: notOptTrim_eq nullishOrString_def specBlank_def)
  moreover have "notOptTrim (JStr ''  '') = Inr True" "notOptTrim (JStr '''') = Inr True"
    "notOptTrim JNull = Inr True" "notOptTrim JUndefined = Inr True"
    by (simp_all add: notOptTrim_def bindE_def trim_def isWhiteSpace_def)
  moreover have "(validateApiData [JObj [(''name'', v)]] ''Users'' =
      Inr [JObj [(''index'', JNum 0), (''userName'', v), (''reason'', JArr [JStr ''name is empty''])]])
     = specBlank v"
    by (cases v)
      (simp_all add: validateApiData_eq checkable_def failsRule_def entryFor_def
        nullishOrString_def specBlank_def)
  moreover have "(validateApiData
      [JObj [(''userId'', JNum n), (''title'', v), (''body'', JStr ''ok'')]] ''Posts'' =
      Inr [JObj [(''index'', JNum 0), (''userId'', JNum n), (''title'', v), (''body'', JStr ''ok''),
                 (''reason'', JArr [JStr ''title is empty''])]])
     = specBlank v"
    by (cases v)
      (simp_all add: validateApiData_eq checkable_def failsRule_def entryFor_def postReasons_def
        nullishOrString_def specBlank_def ok)
  moreover have "(validateApiData
      [JObj [(''userId'', JNum n), (''title'', JStr ''ok''), (''body'', v)]] ''Posts'' =
      Inr [JObj [(''index'', JNum 0), (''userId'', JNum n), (''title'', JStr ''ok''), (''body'', v),
                 (''reason'', JArr [JStr ''body is empty''])]])
     = specBlank v"
    by (cases v)
      (simp_all add: validateApiData_eq checkable_def failsRule_def entryFor_def postReasons_def
        nullishOrString_def specBlank_def ok)
  moreover have "validateApiData
      [JObj [(''userId'', JNum 7), (''title'', JStr ''  ''), (''body'', JNull)],
       JObj [(''userId'', JNum 8), (''title'', JStr ''''), (''body'', JStr ''ok'')],
       JObj [(''userId'', JNum 9), (''body'', JStr '' b '')]] ''Posts'' =
      Inr [JObj [(''index'', JNum 0), (''userId'', JNum 7), (''title'', JStr ''  ''),
                 (''body'', JNull),
                 (''reason'', JArr [JStr ''title is empty'', JStr ''body is empty''])],
           JObj [(''index'', JNum 1), (''userId'', JNum 8), (''title'', JStr ''''),
                 (''body'', JStr ''ok''),
                 (''reason'', JArr [JStr ''title is empty''])],
           JObj [(''index'', JNum 2), (''userId'', JNum 9), (''title'', JUndefined),
                 (''body'', JStr '' b ''),
                 (''reason'', JArr [JStr ''title is empty''])]]"
    by (simp add: validateApiData_def validateItem_def destructure_def postsBranch_def
        notOptTrim_def orE_def bindE_def andStr_def trim_def isWhiteSpace_def)
  ultimately show ?thesis by simp
qed

theorem blank_classification_witness:
  "specBlank (JStr [CHR 0x09, CHR 0x20, CHR 0x0A]) \<and> \<not> specBlank (JStr '' a '') \<and>
   notOptTrim (JStr '' a '') = Inr False \<and>
   validateApiData
      [JObj [(''userId'', JNum 1), (''title'', JStr [CHR 0x09, CHR 0x20, CHR 0x0A]),
             (''body'', JStr ''ok'')]] ''Posts'' =
      Inr [JObj [(''index'', JNum 0), (''userId'', JNum 1),
                 (''title'', JStr [CHR 0x09, CHR 0x20, CHR 0x0A]), (''body'', JStr ''ok''),
                 (''reason'', JArr [JStr ''title is empty''])]] \<and>
   validateApiData
      [JObj [(''userId'', JNum 1), (''title'', JStr ''ok''), (''body'', JStr '' a '')]] ''Posts'' \<noteq>
      Inr [JObj [(''index'', JNum 0), (''userId'', JNum 1), (''title'', JStr ''ok''),
                 (''body'', JStr '' a ''), (''reason'', JArr [JStr ''body is empty''])]]"
  using blank_classification [of "JStr [CHR 0x09, CHR 0x20, CHR 0x0A]" 1]
    blank_classification [of "JStr '' a ''" 1]
  by (simp add: notOptTrim_def bindE_def trim_def isWhiteSpace_def specBlank_def)

text \<open>
  Claim C7. For a label other than \<^verbatim>\<open>"Posts"\<close> and \<^verbatim>\<open>"Users"\<close>, every
  collection of records gives the empty list of violations. (A collection
  holding \<^verbatim>\<open>null\<close> in place of a record raises at the destructuring, under
  every label.)
\<close>

theorem unrecognized_label_no_violations:
  assumes "name \<noteq> ''Posts''" and "name \<noteq> ''Users''" and "\<forall>item \<in> set data. isRecord item"
  shows "validateApiData data name = Inr []"
proof -
  have "\<forall>item \<in> set data. checkable name item"
    using assms by (auto simp: checkable_def isRecord_def split: jsval.splits)
  moreover have "filter (\<lambda>(i, item). failsRule name item) (enumerate 0 data) = []"
    using assms by (simp add: failsRule_def)
  ultimately show ?thesis
    by (simp add: validateApiData_eq)
qed

theorem unrecognized_label_no_violations_witness:
  "''Comments'' \<noteq> ''Posts'' \<and> ''Comments'' \<noteq> ''Users'' \<and> isRecord (samplePosts ! 1) \<and>
   validateApiData samplePosts ''Comments'' = Inr []"
  using unrecognized_label_no_violations [of "''Comments''" samplePosts]
  by (simp add: samplePosts_def isRecord_def)

text \<open>
  Claim C8, amended. For every collection whose records have checked string
  fields (title and body under \<^verbatim>\<open>"Posts"\<close>, name under \<^verbatim>\<open>"Users"\<close>) that are
  null, undefined or strings, \<open>validateApiData\<close> returns one entry per record
  that fails a shape rule of the label, in input order. Under \<^verbatim>\<open>"Posts"\<close> the
  entry holds the index, the record's userId, title and body under these
  names, and the reason list. Under \<^verbatim>\<open>"Users"\<close> it holds the index, the
  record's name under the key \<^verbatim>\<open>userName\<close>, and the reason list.
\<close>

theorem invalid_entry_shape:
  "((\<forall>item \<in> set data.
        isRecord item \<and> nullishOrString (getProp item ''title'') \<and>
        nullishOrString (getProp item ''body'')) \<longrightarrow>
      validateApiData data ''Posts'' =
        Inr (map (\<lambda>(index, item).
                    JObj [(''index'', JNum (int index)),
                          (''userId'', getProp item ''userId''),
                          (''title'', getProp item ''title''),
                          (''body'', getProp item ''body''),
                          (''reason'', JArr (map JStr (postReasons item)))])
               (filter (\<lambda>(index, item). failsRule ''Posts'' item) (enumerate 0 data)))) \<and>
   ((\<forall>item \<in> set data. isRecord item \<and> nullishOrString (getProp item ''name'')) \<longrightarrow>
      validateApiData data ''Users'' =
        Inr (map (\<lambda>(index, item).
                    JObj [(''index'', JNum (int index)),
                          (''userName'', getProp item ''name''),
                          (''reason'', JArr [JStr ''name is empty''])])
               (filter (\<lambda>(index, item). failsRule ''Users'' item) (enumerate 0 data))))"
proof (intro conjI impI)
  assume fields: "\<forall>item \<in> set data.
        isRecord item \<and> nullishOrString (getProp item ''title'') \<and>
        nullishOrString (getProp item ''body'')"
  have "\<forall>item \<in> set data. checkable ''Posts'' item"
  proof
    fix item
    assume "item \<in> set data"
    with fields have "isRecord item" "nullishOrString (getProp item ''title'')"
      "nullishOrString (getProp item ''body'')"
      by simp_all
    then show "checkable ''Posts'' item"
      by (cases item) (simp_all add: checkable_def isRecord_def)
  qed
  moreover have "entryFor ''Posts'' = (\<lambda>(index, item).
                    JObj [(''index'', JNum (int index)),
                          (''userId'', getProp item ''userId''),
                          (''title'', getProp item ''title''),
                          (''body'', getProp item ''body''),
                          (''reason'', JArr (map JStr (postReasons item)))])"
    by (simp add: entryFor_def)
  ultimately show "validateApiData data ''Posts'' =
        Inr (map (\<lambda>(index, item).
                    JObj [(''index'', JNum (int index)),
                          (''userId'', getProp item ''userId''),
                          (''title'', getProp item ''title''),
                          (''body'', getProp item ''body''),
                          (''reason'', JArr (map JStr (postReasons item)))])
               (filter (\<lambda>(index, item). failsRule ''Posts'' item) (enumerate 0 data)))"
    by (simp add: validateApiData_eq)
next
  assume fields: "\<forall>item \<in> set data. isRecord item \<and> nullishOrString (getProp item ''name'')"
  have "\<forall>item \<in> set data. checkable ''Users'' item"
  proof
    fix item
    assume "item \<in> set data"
    with fields have "isRecord item" "nullishOrString (getProp item ''name'')"
      by simp_all
    then show "checkable ''Users'' item"
      by (cases item) (simp_all add: checkable_def isRecord_def)
  qed
  moreover have "entryFor ''Users'' = (\<lambda>(index, item).
                    JObj [(''index'', JNum (int index)),
                          (''userName'', getProp item ''name''),
                          (''reason'', JArr [JStr ''name is empty''])])"
    by (simp add: entryFor_def)
  ultimately show "validateApiData data ''Users'' =
        Inr (map (\<lambda>(index, item).
                    JObj [(''index'', JNum (int index)),
                          (''userName'', getProp item ''name''),
                          (''reason'', JArr [JStr ''name is empty''])])
               (filter (\<lambda>(index, item). failsRule ''Users'' item) (enumerate 0 data)))"
    by (simp add: validateApiData_eq)
qed

theorem invalid_entry_shape_witness:
  "isRecord (samplePosts ! 2) \<and> nullishOrString (getProp (samplePosts ! 2) ''title'') \<and>
   nullishOrString (getProp (samplePosts ! 2) ''body'') \<and>
   validateApiData samplePosts ''Posts'' =
     Inr [JObj [(''index'', JNum 1), (''userId'', JStr ''x''), (''title'', JStr ''''),
                (''body'', JStr ''ok''),
                (''reason'', JArr [JStr ''userId is not a number'', JStr ''title is empty''])],
          JObj [(''index'', JNum 2), (''userId'', JNum 2), (''title'', JUndefined),
                (''body'', JStr ''  ''),
                (''reason'', JArr [JStr ''title is empty'', JStr ''body is empty''])]] \<and>
   isRecord (sampleUsers ! 2) \<and> nullishOrString (getProp (sampleUsers ! 2) ''name'') \<and>
   validateApiData sampleUsers ''Users'' =
     Inr [JObj [(''index'', JNum 0), (''userName'', JStr '' ''),
                (''reason'', JArr [JStr ''name is empty''])],
          JObj [(''index'', JNum 2), (''userName'', JUndefined),
                (''reason'', JArr [JStr ''name is empty''])]]"
proof -
  have posts: "\<forall>item \<in> set samplePosts.
        isRecord item \<and> nullishOrString (getProp item ''title'') \<and>
        nullishOrString (getProp item ''body'')"
    by (simp add: samplePosts_def isRecord_def nullishOrString_def)
  have users: "\<forall>item \<in> set sampleUsers. isRecord item \<and> nullishOrString (getProp item ''name'')"
    by (simp add: sampleUsers_def isRecord_def nullishOrString_def)
  have failingPosts:
    "filter (\<lambda>(index, item). failsRule ''Posts'' item) (enumerate 0 samplePosts) =
       [(1, samplePosts ! 1), (2, samplePosts ! 2)]"
    by (simp add: samplePosts_def failsRule_def postReasons_def specBlank_def trim_def
        isWhiteSpace_def enumerate_eq_zip upt_rec)
  have failingUsers:
    "filter (\<lambda>(index, item). failsRule ''Users'' item) (enumerate 0 sampleUsers) =
       [(0, sampleUsers ! 0), (2, sampleUsers ! 2)]"
    by (simp add: sampleUsers_def failsRule_def specBlank_def trim_def
        isWhiteSpace_def enumerate_eq_zip upt_rec)
  from invalid_entry_shape [of samplePosts] posts
  have "validateApiData samplePosts ''Posts'' =
        Inr (map (\<lambda>(index, item).
                    JObj [(''index'', JNum (int index)),
                          (''userId'', getProp item ''userId''),
                          (''title'', getProp item ''title''),
                          (''body'', getProp item ''body''),
                          (''reason'', JArr (map JStr (postReasons item)))])
               (filter (\<lambda>(index, item). failsRule ''Posts'' item) (enumerate 0 samplePosts)))"
    by blast
  then have p: "validateApiData samplePosts ''Posts'' =
     Inr [JObj [(''index'', JNum 1), (''userId'', JStr ''x''), (''title'', JStr ''''),
                (''body'', JStr ''ok''),
                (''reason'', JArr [JStr ''userId is not a number'', JStr ''title is empty''])],
          JObj [(''index'', JNum 2), (''userId'', JNum 2), (''title'', JUndefined),
                (''body'', JStr ''  ''),
                (''reason'', JArr [JStr ''title is empty'', JStr ''body is empty''])]]"
    unfolding failingPosts
    by (simp add: samplePosts_def postReasons_def specBlank_def trim_def isWhiteSpace_def)
  from invalid_entry_shape [of sampleUsers] users
  have "validateApiData sampleUsers ''Users'' =
        Inr (map (\<lambda>(index, item).
                    JObj [(''index'', JNum (int index)),
                          (''userName'', getProp item ''name''),
                          (''reason'', JArr [JStr ''name is empty''])])
               (filter (\<lambda>(index, item). failsRule ''Users'' item) (enumerate 0 sampleUsers)))"
    by blast
  then have u: "validateApiData sampleUsers ''Users'' =
     Inr [JObj [(''index'', JNum 0), (''userName'', JStr '' ''),
                (''reason'', JArr [JStr ''name is empty''])],
          JObj [(''index'', JNum 2), (''userName'', JUndefined),
                (''reason'', JArr [JStr ''name is empty''])]]"
    unfolding failingUsers
    by (simp add: sampleUsers_def)
  from posts users p u show ?thesis
    by (simp add: samplePosts_def sampleUsers_def)
qed

text \<open>
  Claim C8 as stated fails. The entry of a user with an empty name has no
  property \<^verbatim>\<open>name\<close>: the value is stored under \<^verbatim>\<open>userName\<close>. And a post that
  fails the userId rule, with the number 5 as its title, gets no entry.
\<close>

theorem users_entry_field_name_counterexample:
  "validateApiData [JObj [(''name'', JStr '''')]] ''Users'' =
     Inr [JObj [(''index'', JNum 0), (''userName'', JStr ''''),
                (''reason'', JArr [JStr ''name is empty''])]] \<and>
   getProp (JObj [(''index'', JNum 0), (''userName'', JStr ''''),
                  (''reason'', JArr [JStr ''name is empty''])]) ''name'' = JUndefined \<and>
   failsRule ''Posts'' (JObj [(''userId'', JStr ''x''), (''title'', JNum 5), (''body'', JStr ''ok'')]) \<and>
   validateApiData
     [JObj [(''userId'', JStr ''x''), (''title'', JNum 5), (''body'', JStr ''ok'')]] ''Posts'' =
     Inl TypeError"
  by (simp add: validateApiData_def validateItem_def destructure_def postsBranch_def
      usersBranch_def notOptTrim_def orE_def bindE_def trim_def failsRule_def postReasons_def)

text \<open>
  Claim C10. \<open>validateApiData\<close> returns only when every record's checked string
  fields (title and body under \<^verbatim>\<open>"Posts"\<close>, name under \<^verbatim>\<open>"Users"\<close>) are
  nullish or strings; a post whose title is the number 5 makes the call raise a
  TypeError, and no entry is produced.
\<close>

theorem validateApiData_returns_only_on_checkable_fields:
  "(validateApiData data ''Posts'' = Inr out \<longrightarrow>
      (\<forall>item \<in> set data.
         nullishOrString (getProp item ''title'') \<and> nullishOrString (getProp item ''body''))) \<and>
   (validateApiData data' ''Users'' = Inr out' \<longrightarrow>
      (\<forall>item \<in> set data'. nullishOrString (getProp item ''name''))) \<and>
   validateApiData
     [JObj [(''userId'', JNum 1), (''title'', JNum 5), (''body'', JStr ''ok'')]] ''Posts'' =
     Inl TypeError"
proof (intro conjI impI)
  assume "validateApiData data ''Posts'' = Inr out"
  from validateApiData_Inr [OF this]
  show "\<forall>item \<in> set data.
         nullishOrString (getProp item ''title'') \<and> nullishOrString (getProp item ''body'')"
    by (simp add: checkable_def)
next
  assume "validateApiData data' ''Users'' = Inr out'"
  from validateApiData_Inr [OF this]
  show "\<forall>item \<in> set data'. nullishOrString (getProp item ''name'')"
    by (simp add: checkable_def)
next
  show "validateApiData
     [JObj [(''userId'', JNum 1), (''title'', JNum 5), (''body'', JStr ''ok'')]] ''Posts'' =
     Inl TypeError"
    by (simp add: validateApiData_def validateItem_def destructure_def postsBranch_def
        notOptTrim_def orE_def bindE_def)
qed

theorem validateApiData_returns_only_on_checkable_fields_witness:
  "validateApiData samplePosts ''Posts'' =
     Inr [JObj [(''index'', JNum 1), (''userId'', JStr ''x''), (''title'', JStr ''''),
                (''body'', JStr ''ok''),
                (''reason'', JArr [JStr ''userId is not a number'', JStr ''title is empty''])],
          JObj [(''index'', JNum 2), (''userId'', JNum 2), (''title'', JUndefined),
                (''body'', JStr ''  ''),
                (''reason'', JArr [JStr ''title is empty'', JStr ''body is empty''])]] \<and>
   nullishOrString (getProp (samplePosts ! 2) ''title'') \<and>
   nullishOrString (getProp (samplePosts ! 2) ''body'') \<and>
   validateApiData sampleUsers ''Users'' =
     Inr [JObj [(''index'', JNum 0), (''userName'', JStr '' ''),
                (''reason'', JArr [JStr ''name is empty''])],
          JObj [(''index'', JNum 2), (''userName'', JUndefined),
                (''reason'', JArr [JStr ''name is empty''])]] \<and>
   nullishOrString (getProp (sampleUsers ! 2) ''name'')"
  using validateApiData_returns_only_on_checkable_fields
     [of samplePosts _ sampleUsers] samplePosts_result sampleUsers_result
  by (simp add: samplePosts_def sampleUsers_def)

section \<open>Order preservation of both validators\<close>

text \<open>
  Claim C5. The broken resources are a subsequence of the per-URL check
  results, entry by entry: they come from strictly increasing positions of the
  input, and the entry from a position holds the URL at that position and the
  status of the navigation made for it (so two entries of one URL keep their
  order). The entries of \<open>validateApiData\<close> come from strictly increasing
  positions of the collection: each entry's \<^verbatim>\<open>index\<close> is the zero-based
  position of the record that fails a rule, and the entry is the one the
  callback builds for that record at that position; the call returns whenever
  the validator can test the checked fields of every record.
\<close>

theorem validators_preserve_order:
  "subseq (fst (validateResources goto p resources)) (resourceCheckResults goto p resources) \<and>
   subseq (map resource (fst (validateResources goto p resources))) resources \<and>
   (\<exists>positions. sorted_wrt (<) positions \<and>
      length positions = length (fst (validateResources goto p resources)) \<and>
      (\<forall>j < length (fst (validateResources goto p resources)).
         positions ! j < length resources \<and>
         fst (validateResources goto p resources) ! j =
           \<lparr>resource = resources ! (positions ! j),
            status = resultStatus (navigations goto p resources ! (positions ! j))\<rparr>)) \<and>
   ((\<forall>item \<in> set data. checkable name item) \<longrightarrow>
      (\<exists>entries. validateApiData data name = Inr entries)) \<and>
   (validateApiData data name = Inr out \<longrightarrow>
      (\<exists>positions. sorted_wrt (<) positions \<and> length positions = length out \<and>
         (\<forall>j < length out.
            positions ! j < length data \<and>
            getProp (out ! j) ''index'' = JNum (int (positions ! j)) \<and>
            failsRule name (data ! (positions ! j)) \<and>
            validateItem name (data ! (positions ! j)) (positions ! j) [] = Inr [out ! j])))"
proof (intro conjI impI)
  show "subseq (fst (validateResources goto p resources)) (resourceCheckResults goto p resources)"
    by (simp add: validateResources_eq)
next
  show "subseq (map resource (fst (validateResources goto p resources))) resources"
    by (rule validateResources_subseq)
next
  let ?results = "resourceCheckResults goto p resources"
  let ?kept = "filter (\<lambda>(i, e). status e \<noteq> JNum 200) (enumerate 0 ?results)"
  let ?out = "fst (validateResources goto p resources)"
  have out: "?out = map snd ?kept"
    unfolding validateResources_eq by (rule filter_via_enumerate)
  have "\<forall>j < length ?out.
          map fst ?kept ! j < length resources \<and>
          ?out ! j =
            \<lparr>resource = resources ! (map fst ?kept ! j),
             status = resultStatus (navigations goto p resources ! (map fst ?kept ! j))\<rparr>"
  proof (intro allI impI)
    fix j
    assume "j < length ?out"
    then have j: "j < length ?kept" by (simp add: out)
    from failing_position_nth [OF j]
    obtain i where i: "?kept ! j = (i, ?results ! i)" "i < length ?results"
      by blast
    from i(2) have "i < length resources"
      by (simp add: length_resourceCheckResults)
    with i j show "map fst ?kept ! j < length resources \<and>
          ?out ! j =
            \<lparr>resource = resources ! (map fst ?kept ! j),
             status = resultStatus (navigations goto p resources ! (map fst ?kept ! j))\<rparr>"
      by (simp add: out nth_resourceCheckResults)
  qed
  moreover have "sorted_wrt (<) (map fst ?kept)"
    by (rule failing_positions_sorted)
  moreover have "length (map fst ?kept) = length ?out"
    by (simp add: out)
  ultimately show "\<exists>positions. sorted_wrt (<) positions \<and>
      length positions = length ?out \<and>
      (\<forall>j < length ?out.
         positions ! j < length resources \<and>
         ?out ! j =
           \<lparr>resource = resources ! (positions ! j),
            status = resultStatus (navigations goto p resources ! (positions ! j))\<rparr>)"
    by blast
next
  assume "\<forall>item \<in> set data. checkable name item"
  then show "\<exists>entries. validateApiData data name = Inr entries"
    by (simp add: validateApiData_eq)
next
  assume ok: "validateApiData data name = Inr out"
  let ?failing = "filter (\<lambda>(i, item). failsRule name item) (enumerate 0 data)"
  from validateApiData_Inr [OF ok]
  have chk: "\<forall>item \<in> set data. checkable name item" and out: "out = map (entryFor name) ?failing"
    by simp_all
  have "\<forall>j < length out.
          map fst ?failing ! j < length data \<and>
          getProp (out ! j) ''index'' = JNum (int (map fst ?failing ! j)) \<and>
          failsRule name (data ! (map fst ?failing ! j)) \<and>
          validateItem name (data ! (map fst ?failing ! j)) (map fst ?failing ! j) [] =
            Inr [out ! j]"
  proof (intro allI impI)
    fix j
    assume "j < length out"
    then have j: "j < length ?failing" by (simp add: out)
    from failing_position_nth [OF j]
    obtain i where i: "?failing ! j = (i, data ! i)" "i < length data" "failsRule name (data ! i)"
      by blast
    from i(2) chk have "checkable name (data ! i)" by simp
    with i j show "map fst ?failing ! j < length data \<and>
          getProp (out ! j) ''index'' = JNum (int (map fst ?failing ! j)) \<and>
          failsRule name (data ! (map fst ?failing ! j)) \<and>
          validateItem name (data ! (map fst ?failing ! j)) (map fst ?failing ! j) [] =
            Inr [out ! j]"
      by (simp add: out index_entryFor validateItem_eq)
  qed
  moreover have "sorted_wrt (<) (map fst ?failing)"
    by (rule failing_positions_sorted)
  moreover have "length (map fst ?failing) = length out"
    by (simp add: out)
  ultimately show "\<exists>positions. sorted_wrt (<) positions \<and> length positions = length out \<and>
         (\<forall>j < length out.
            positions ! j < length data \<and>
            getProp (out ! j) ''index'' = JNum (int (positions ! j)) \<and>
            failsRule name (data ! (positions ! j)) \<and>
            validateItem name (data ! (positions ! j)) (positions ! j) [] = Inr [out ! j])"
    by blast
qed

theorem validators_preserve_order_witness:
  "fst (validateResources samplePage 0 [''/gone.js'', ''/ok.css'', ''#top'', ''/gone.js'']) =
     [\<lparr>resource = ''/gone.js'', status = JNum 404\<rparr>,
      \<lparr>resource = ''#top'', status = JStr ''No Response''\<rparr>,
      \<lparr>resource = ''/gone.js'', status = JNum 404\<rparr>] \<and>
   subseq [\<lparr>resource = ''/gone.js'', status = JNum 404\<rparr>,
           \<lparr>resource = ''#top'', status = JStr ''No Response''\<rparr>,
           \<lparr>resource = ''/gone.js'', status = JNum 404\<rparr>]
     (resourceCheckResults samplePage 0 [''/gone.js'', ''/ok.css'', ''#top'', ''/gone.js'']) \<and>
   subseq [''/gone.js'', ''#top'', ''/gone.js''] [''/gone.js'', ''/ok.css'', ''#top'', ''/gone.js''] \<and>
   checkable ''Users'' (sampleUsers ! 2) \<and>
   validateApiData sampleUsers ''Users'' =
     Inr [JObj [(''index'', JNum 0), (''userName'', JStr '' ''),
                (''reason'', JArr [JStr ''name is empty''])],
          JObj [(''index'', JNum 2), (''userName'', JUndefined),
                (''reason'', JArr [JStr ''name is empty''])]] \<and>
   (\<exists>positions. sorted_wrt (<) positions \<and> length positions = 2 \<and>
      JNum 0 = JNum (int (positions ! 0)) \<and> JNum 2 = JNum (int (positions ! 1)) \<and>
      positions ! 1 < length sampleUsers)"
proof -
  let ?rs = "[''/gone.js'', ''/ok.css'', ''#top'', ''/gone.js'']"
  let ?out = "[JObj [(''index'', JNum 0), (''userName'', JStr '' ''),
                (''reason'', JArr [JStr ''name is empty''])],
          JObj [(''index'', JNum 2), (''userName'', JUndefined),
                (''reason'', JArr [JStr ''name is empty''])]]"
  note inst = validators_preserve_order [of samplePage 0 ?rs sampleUsers "''Users''" ?out]
  have res: "fst (validateResources samplePage 0 ?rs) =
     [\<lparr>resource = ''/gone.js'', status = JNum 404\<rparr>,
      \<lparr>resource = ''#top'', status = JStr ''No Response''\<rparr>,
      \<lparr>resource = ''/gone.js'', status = JNum 404\<rparr>]"
    by (simp add: validateResources_eq resourceCheckResults_def samplePage_def resultStatus_def)
  from inst have "subseq (fst (validateResources samplePage 0 ?rs))
      (resourceCheckResults samplePage 0 ?rs)"
    by (rule conjunct1)
  then have sub1: "subseq [\<lparr>resource = ''/gone.js'', status = JNum 404\<rparr>,
           \<lparr>resource = ''#top'', status = JStr ''No Response''\<rparr>,
           \<lparr>resource = ''/gone.js'', status = JNum 404\<rparr>]
     (resourceCheckResults samplePage 0 ?rs)"
    by (simp only: res)
  from inst have "subseq (map resource (fst (validateResources samplePage 0 ?rs))) ?rs"
    by (rule conjunct1 [OF conjunct2])
  then have sub2: "subseq [''/gone.js'', ''#top'', ''/gone.js''] ?rs"
    by (simp add: res)
  have chk: "checkable ''Users'' (sampleUsers ! 2)"
    by (simp add: sampleUsers_def checkable_def nullishOrString_def)
  from inst have "validateApiData sampleUsers ''Users'' = Inr ?out \<longrightarrow>
      (\<exists>positions. sorted_wrt (<) positions \<and> length positions = length ?out \<and>
         (\<forall>j < length ?out.
            positions ! j < length sampleUsers \<and>
            getProp (?out ! j) ''index'' = JNum (int (positions ! j)) \<and>
            failsRule ''Users'' (sampleUsers ! (positions ! j)) \<and>
            validateItem ''Users'' (sampleUsers ! (positions ! j)) (positions ! j) [] =
              Inr [?out ! j]))"
    by (rule conjunct2 [OF conjunct2 [OF conjunct2 [OF conjunct2]]])
  with sampleUsers_result
  obtain positions where p: "sorted_wrt (<) positions" "length positions = length ?out"
    "\<forall>j < length ?out. positions ! j < length sampleUsers \<and>
        getProp (?out ! j) ''index'' = JNum (int (positions ! j))"
    by blast
  have "0 < length ?out" "1 < length ?out"
    by simp_all
  with p(3) have "positions ! 0 < length sampleUsers \<and>
        getProp (?out ! 0) ''index'' = JNum (int (positions ! 0))"
    and "positions ! 1 < length sampleUsers \<and>
        getProp (?out ! 1) ''index'' = JNum (int (positions ! 1))"
    by blast+
  then have "JNum 0 = JNum (int (positions ! 0)) \<and> JNum 2 = JNum (int (positions ! 1)) \<and>
      positions ! 1 < length sampleUsers"
    by simp
  with p(1,2) have "\<exists>positions. sorted_wrt (<) positions \<and> length positions = 2 \<and>
      JNum 0 = JNum (int (positions ! 0)) \<and> JNum 2 = JNum (int (positions ! 1)) \<and>
      positions ! 1 < length sampleUsers"
    by auto
  with res sub1 sub2 chk sampleUsers_result show ?thesis by simp
qed

section \<open>Properties of the audit scenario\<close>

lemma audit_closes_once_prepared:
  assumes "snd (ensureDirectoryExists env) = Inr ()"
  shows "CloseCalled \<in> set (fst (auditScenario env))"
proof -
  obtain prepared where "ensureDirectoryExists env = (prepared, Inr ())"
    using assms by (cases "ensureDirectoryExists env") simp
  moreover have "CloseCalled \<in> set (closeBrowserContextSafely env)"
    by (simp add: closeBrowserContextSafely_def)
  ultimately show ?thesis
    by (cases "auditTry env") (auto simp: auditScenario_def auditStep_def split: sum.splits)
qed

text \<open>
  Claim C4. Closing on every exit path fails on one path: when the reports
  directory cannot be created, the fault leaves the step before the
  \<^verbatim>\<open>try\<close> statement is entered, and \<open>closeBrowserContextSafely\<close> is never
  called. On every path that has prepared the directory the context is closed
  (\<open>audit_closes_once_prepared\<close>).
\<close>

theorem audit_context_left_open_when_mkdir_fails:
  "auditScenario mkdirFailure = ([Launched], Inl IOError) \<and>
   CloseCalled \<notin> set (fst (auditScenario mkdirFailure))"
  by (simp add: auditScenario_def auditStep_def ensureDirectoryExists_def mkdirFailure_def)

end
